theory Spec2Isabelle
  imports Main
begin

section \<open>Beast X configuration tool: packets, device, persistence, handlers\<close>

text \<open>
  A shallow embedding of \<^verbatim>\<open>src/beastx_app.py\<close>. Python integers are \<open>int\<close>.
  Python text is \<open>string\<close>, holding the UTF-8 bytes of the text (the source's
  notifications use characters outside ASCII). A raised exception is a value of
  \<open>exn\<close>; \<open>str_exn\<close> is Python's \<open>str(e)\<close>, the text the exception
  was built with.
\<close>

subsection \<open>Exceptions and text formatting\<close>

datatype exn =
    RuntimeError string
  | ValueError string
  | IndexError string
  | TypeError string
  | NameError string
  | OverflowError string
  | LibraryError string  \<comment> \<open>an exception raised inside the HID library, with its text\<close>

fun str_exn :: "exn \<Rightarrow> string" where
  "str_exn (RuntimeError m) = m"
| "str_exn (ValueError m) = m"
| "str_exn (IndexError m) = m"
| "str_exn (TypeError m) = m"
| "str_exn (NameError m) = m"
| "str_exn (OverflowError m) = m"
| "str_exn (LibraryError m) = m"

definition digit_char :: "nat \<Rightarrow> char" where
  "digit_char d = ''0123456789'' ! d"

fun str_nat :: "nat \<Rightarrow> string" where
  "str_nat n = (if n < 10 then [digit_char n] else str_nat (n div 10) @ [digit_char (n mod 10)])"

declare str_nat.simps [simp del]

text \<open>\<open>str(i)\<close> and the f-string field \<open>{i}\<close> of an integer.\<close>

definition str_int :: "int \<Rightarrow> string" where
  "str_int i = (if i < 0 then CHR ''-'' # str_nat (nat (- i)) else str_nat (nat i))"

text \<open>The f-string field \<open>{i:,}\<close>: decimal digits in groups of three, separated by commas.\<close>

fun group3 :: "string \<Rightarrow> string" where
  "group3 (a # b # c # d # ds) = a # b # c # CHR '','' # group3 (d # ds)"
| "group3 ds = ds"

definition fmt_comma :: "int \<Rightarrow> string" where
  "fmt_comma i =
     (if i < 0 then CHR ''-'' # rev (group3 (rev (str_nat (nat (- i)))))
      else rev (group3 (rev (str_nat (nat i)))))"

text \<open>UTF-8 of the four non-ASCII characters of the notifications.\<close>

definition check_mark :: string where  \<comment> \<open>U+2713\<close>
  "check_mark = [char_of (0xE2::nat), char_of (0x9C::nat), char_of (0x93::nat)]"

definition ballot_x :: string where  \<comment> \<open>U+2717\<close>
  "ballot_x = [char_of (0xE2::nat), char_of (0x9C::nat), char_of (0x97::nat)]"

definition right_arrow :: string where  \<comment> \<open>U+2192\<close>
  "right_arrow = [char_of (0xE2::nat), char_of (0x86::nat), char_of (0x92::nat)]"

definition em_dash :: string where  \<comment> \<open>U+2014\<close>
  "em_dash = [char_of (0xE2::nat), char_of (0x80::nat), char_of (0x94::nat)]"

subsection \<open>Protocol packets\<close>

definition REPORT_SIZE :: nat where
  "REPORT_SIZE = 64"

definition POLL_PACKETS_items :: "(int \<times> int list) list" where
  "POLL_PACKETS_items =
   [(125,  [0x04,0x73,0x02,0x06,0x18,0x00,0x00,0x00,0x00,0x04,0x04,0x04,0x00,0x00,0x21,0x00,
            0x95,0x01,0x00,0x00,0x00,0x00,0x01,0x00,0x40,0x06,0x40,0x06,0x10,0x00,0xc8,0x01]),
    (250,  [0x04,0x71,0x83,0x06,0x18,0x00,0x00,0x00,0x00,0x04,0x04,0x04,0x00,0x00,0x21,0x00,
            0x95,0x01,0x00,0x01,0x00,0x00,0x01,0x00,0x40,0x06,0x40,0x06,0x10,0x00,0xc8,0x01]),
    (500,  [0x04,0x74,0x40,0x06,0x18,0x00,0x00,0x00,0x00,0x04,0x04,0x04,0x00,0x00,0x21,0x00,
            0x95,0x01,0x00,0x02,0x00,0x00,0x01,0x00,0x40,0x06,0x40,0x06,0x10,0x00,0xc8,0x01]),
    (1000, [0x04,0x76,0xc1,0x06,0x18,0x00,0x00,0x00,0x00,0x04,0x04,0x04,0x00,0x00,0x21,0x00,
            0x95,0x01,0x00,0x03,0x00,0x00,0x01,0x00,0x40,0x06,0x40,0x06,0x10,0x00,0xc8,0x01]),
    (2000, [0x04,0x7d,0x86,0x06,0x18,0x00,0x00,0x00,0x00,0x04,0x04,0x04,0x00,0x00,0x21,0x00,
            0x95,0x01,0x00,0x04,0x00,0x00,0x01,0x00,0x40,0x06,0x40,0x06,0x10,0x00,0xc8,0x01]),
    (4000, [0x04,0x7f,0x07,0x06,0x18,0x00,0x00,0x00,0x00,0x04,0x04,0x04,0x00,0x00,0x21,0x00,
            0x95,0x01,0x00,0x05,0x00,0x00,0x01,0x00,0x40,0x06,0x40,0x06,0x10,0x00,0xc8,0x01])]"

definition POLL_PACKETS :: "int \<Rightarrow> int list option" where
  "POLL_PACKETS = map_of POLL_PACKETS_items"

definition LOD_PACKETS_items :: "(int \<times> int list) list" where
  "LOD_PACKETS_items =
   [(0, [0x04,0x76,0xc1,0x06,0x18,0x00,0x00,0x00,0x00,0x04,0x04,0x04,0x00,0x00,0x21,0x00,
         0x95,0x01,0x00,0x03,0x00,0x00,0x01,0x00,0x40,0x06,0x40,0x06,0x10,0x00,0xc8,0x01]),
    (1, [0x04,0x72,0x3d,0x06,0x18,0x00,0x00,0x00,0x00,0x04,0x04,0x04,0x00,0x00,0x21,0x00,
         0x95,0x01,0x00,0x03,0x00,0x01,0x01,0x00,0x40,0x06,0x40,0x06,0x10,0x00,0xc8,0x01])]"

definition LOD_PACKETS :: "int \<Rightarrow> int list option" where
  "LOD_PACKETS = map_of LOD_PACKETS_items"

text \<open>
  \<open>pad_packet\<close>: \<open>buf = bytearray(REPORT_SIZE); buf[:len(data)] = data\<close>. The slice
  assignment replaces the first \<open>len(data)\<close> bytes of the zeroed buffer (all of it when
  \<open>data\<close> is longer) by \<open>data\<close>, and raises \<open>ValueError\<close> when an element is not
  a byte. A byte string is a list of integers in \<open>0..255\<close>.
\<close>

definition is_byte :: "int \<Rightarrow> bool" where
  "is_byte b = (0 \<le> b \<and> b < 256)"

definition pad_packet :: "int list \<Rightarrow> exn + int list" where
  "pad_packet data =
     (if list_all is_byte data
      then Inr (data @ drop (length data) (replicate REPORT_SIZE 0))
      else Inl (ValueError ''byte must be in range(0, 256)''))"

subsection \<open>The mouse device\<close>

text \<open>
  The HID library's handle is outside the repository. It is modelled by what a write to it
  answers: the integer the call returns, or an exception of the library; by the text its
  \<open>error()\<close> returns; and by the list of byte strings written to it so far.
\<close>

datatype hid_reply = Returns int | Raises string

record hid_handle =
  reply :: "int list \<Rightarrow> hid_reply"
  error_text :: string
  written :: "int list list"

record BeastXDevice =
  dev :: "hid_handle option"  \<comment> \<open>\<open>self._dev\<close>\<close>

definition connected :: "BeastXDevice \<Rightarrow> bool" where
  "connected d = (dev d \<noteq> None)"

definition send :: "int list \<Rightarrow> BeastXDevice \<Rightarrow> (exn + int) \<times> BeastXDevice" where
  "send packet d =
     (case dev d of
        None \<Rightarrow> (Inl (RuntimeError ''Not connected''), d)
      | Some h \<Rightarrow>
          (case pad_packet packet of
             Inl e \<Rightarrow> (Inl e, d)
           | Inr buf \<Rightarrow>
               (let d' = d\<lparr>dev := Some (h\<lparr>written := written h @ [0 # buf]\<rparr>)\<rparr> in
                case reply h (0 # buf) of
                  Raises m \<Rightarrow> (Inl (LibraryError m), d')
                | Returns result \<Rightarrow>
                    if result < 0
                    then (Inl (RuntimeError (''Write failed: '' @ error_text h)), d')
                    else (Inr result, d'))))"

text \<open>\<open>set_poll_rate\<close> and \<open>set_lod\<close> drop the count \<open>send\<close> returns.\<close>

definition discard :: "(exn + int) \<times> BeastXDevice \<Rightarrow> (exn + unit) \<times> BeastXDevice" where
  "discard r = (case r of (Inl e, d) \<Rightarrow> (Inl e, d) | (Inr n, d) \<Rightarrow> (Inr (), d))"

definition set_poll_rate :: "int \<Rightarrow> BeastXDevice \<Rightarrow> (exn + unit) \<times> BeastXDevice" where
  "set_poll_rate hz d =
     (case POLL_PACKETS hz of
        None \<Rightarrow> (Inl (ValueError (''Invalid polling rate: '' @ str_int hz)), d)
      | Some packet \<Rightarrow> discard (send packet d))"

definition set_lod :: "int \<Rightarrow> BeastXDevice \<Rightarrow> (exn + unit) \<times> BeastXDevice" where
  "set_lod lod d =
     (case LOD_PACKETS lod of
        None \<Rightarrow> (Inl (ValueError (''Invalid LOD: '' @ str_int lod)), d)
      | Some packet \<Rightarrow> discard (send packet d))"

subsection \<open>Config persistence\<close>

text \<open>
  \<open>json\<close> is a parsed JSON document, as \<open>json.load\<close> hands it to the program:
  \<open>JObj\<close> lists an object's members in the order of the text. Numbers with a fraction
  or an exponent (Python floats) are not represented. A Python dict is the list of its
  items in insertion order, \<open>pydict\<close>; its keys are the hashable values a JSON document
  can produce, and \<open>True\<close> and \<open>1\<close> (\<open>False\<close> and \<open>0\<close>) are the same key.
\<close>

datatype json =
    JNull
  | JBool bool
  | JInt int
  | JStr string
  | JList "json list"
  | JObj "(string \<times> json) list"

datatype pykey = KNone | KBool bool | KInt int | KStr string

type_synonym pydict = "(pykey \<times> json) list"

fun key_norm :: "pykey \<Rightarrow> pykey" where
  "key_norm (KBool b) = KInt (if b then 1 else 0)"
| "key_norm k = k"

fun dict_setitem :: "pydict \<Rightarrow> pykey \<Rightarrow> json \<Rightarrow> pydict" where
  "dict_setitem [] k v = [(k, v)]"
| "dict_setitem ((k', v') # d) k v =
     (if key_norm k' = key_norm k then (k', v) # d else (k', v') # dict_setitem d k v)"

fun dict_get :: "pydict \<Rightarrow> pykey \<Rightarrow> json option" where
  "dict_get [] k = None"
| "dict_get ((k', v') # d) k = (if key_norm k' = key_norm k then Some v' else dict_get d k)"

fun as_key :: "json \<Rightarrow> pykey option" where
  "as_key JNull = Some KNone"
| "as_key (JBool b) = Some (KBool b)"
| "as_key (JInt i) = Some (KInt i)"
| "as_key (JStr s) = Some (KStr s)"
| "as_key (JList xs) = None"
| "as_key (JObj kvs) = None"

text \<open>The characters of a text: each lead byte with the continuation bytes after it.\<close>

definition is_cont :: "char \<Rightarrow> bool" where
  "is_cont c = (128 \<le> (of_char c :: nat) \<and> (of_char c :: nat) < 192)"

function utf8_chars :: "string \<Rightarrow> string list" where
  "utf8_chars [] = []"
| "utf8_chars (c # cs) = (c # takeWhile is_cont cs) # utf8_chars (dropWhile is_cont cs)"
  by pat_completeness auto
termination
  by (relation "measure length") (auto simp: length_dropWhile_le less_Suc_eq_le)

text \<open>The keys of a parsed object, each once, in the order of first occurrence.\<close>

definition obj_keys :: "(string \<times> json) list \<Rightarrow> string list" where
  "obj_keys kvs = rev (remdups (rev (map fst kvs)))"

text \<open>
  \<open>dict.update(other)\<close>. A dict argument is merged key by key. Any other argument is
  iterated, and each element must itself be an iterable of exactly two elements (a list of
  two, a text of two characters, an object of two keys), the first one hashable: a key and
  its value. The exception texts are abridged; \<open>load_config\<close> discards them.
\<close>

fun pair_of :: "json \<Rightarrow> exn + (pykey \<times> json)" where
  "pair_of (JList [a, b]) =
     (case as_key a of
        None \<Rightarrow> Inl (TypeError ''unhashable type'')
      | Some k \<Rightarrow> Inr (k, b))"
| "pair_of (JList xs) = Inl (ValueError ''dictionary update sequence element: 2 is required'')"
| "pair_of (JStr s) =
     (case utf8_chars s of
        [a, b] \<Rightarrow> Inr (KStr a, JStr b)
      | _ \<Rightarrow> Inl (ValueError ''dictionary update sequence element: 2 is required''))"
| "pair_of (JObj kvs) =
     (case obj_keys kvs of
        [a, b] \<Rightarrow> Inr (KStr a, JStr b)
      | _ \<Rightarrow> Inl (ValueError ''dictionary update sequence element: 2 is required''))"
| "pair_of _ = Inl (TypeError ''cannot convert dictionary update sequence element to a sequence'')"

fun update_pairs :: "pydict \<Rightarrow> json list \<Rightarrow> exn + pydict" where
  "update_pairs d [] = Inr d"
| "update_pairs d (x # xs) =
     (case pair_of x of
        Inl e \<Rightarrow> Inl e
      | Inr (k, v) \<Rightarrow> update_pairs (dict_setitem d k v) xs)"

fun update_members :: "pydict \<Rightarrow> (string \<times> json) list \<Rightarrow> pydict" where
  "update_members d [] = d"
| "update_members d ((k, v) # kvs) = update_members (dict_setitem d (KStr k) v) kvs"

fun dict_update :: "pydict \<Rightarrow> json \<Rightarrow> exn + pydict" where
  "dict_update d (JObj kvs) = Inr (update_members d kvs)"
| "dict_update d (JList xs) = update_pairs d xs"
| "dict_update d (JStr s) = update_pairs d (map JStr (utf8_chars s))"
| "dict_update d _ = Inl (TypeError ''object is not iterable'')"

text \<open>
  The file at \<open>CONFIG_PATH\<close>: absent; present but \<open>open\<close> or \<open>json.load\<close> raises
  (unreadable, malformed); or present and parsed to a document.
\<close>

datatype file_state = Missing | Unreadable | Parsed json

text \<open>
  \<open>DEFAULT_CONFIG\<close> is a dict of the module, and the list under its key
  \<open>dpi_profiles\<close> is a mutable object. \<open>dict(DEFAULT_CONFIG)\<close> is a shallow copy: the
  dict returned by \<open>load_config\<close> holds that same list unless the file brought its own,
  and the handlers change the list of \<open>self.config\<close> in place. So the contents of the
  list are state of the program: \<open>DEFAULT_PROFILES\<close> when the module is imported, and
  \<open>DEFAULT_CONFIG ps\<close> is the dict when the list holds \<open>ps\<close>. The three integers
  cannot change. \<open>load_config ps\<close> is \<open>load_config()\<close> called when the list holds
  \<open>ps\<close>.
\<close>

definition DEFAULT_PROFILES :: "int list" where
  "DEFAULT_PROFILES = [400, 800, 1600, 3200]"

definition DEFAULT_CONFIG :: "int list \<Rightarrow> pydict" where
  "DEFAULT_CONFIG ps =
     [(KStr ''dpi_profiles'', JList (map JInt ps)),
      (KStr ''active_dpi'', JInt 1),
      (KStr ''poll_rate'', JInt 1000),
      (KStr ''lod'', JInt 0)]"

definition load_config :: "int list \<Rightarrow> file_state \<Rightarrow> pydict" where
  "load_config ps fs =
     (case fs of
        Missing \<Rightarrow> DEFAULT_CONFIG ps
      | Unreadable \<Rightarrow> DEFAULT_CONFIG ps
      | Parsed data \<Rightarrow>
          (case dict_update (DEFAULT_CONFIG ps) data of
             Inl e \<Rightarrow> DEFAULT_CONFIG ps
           | Inr merged \<Rightarrow> merged))"

text \<open>
  \<open>json.dump\<close> writes a dict as an object, its keys turned into text. \<open>save_config\<close>
  overwrites the file, whatever it held; a failure of the storage itself is not modelled.
\<close>

fun key_str :: "pykey \<Rightarrow> string" where
  "key_str (KStr s) = s"
| "key_str (KInt i) = str_int i"
| "key_str (KBool b) = (if b then ''true'' else ''false'')"
| "key_str KNone = ''null''"

definition save_config :: "pydict \<Rightarrow> file_state \<Rightarrow> file_state" where
  "save_config cfg fs = Parsed (JObj (map (\<lambda>(k, v). (key_str k, v)) cfg))"

subsection \<open>Python lists and rounding\<close>

text \<open>
  An index \<open>i\<close> into a list of length \<open>n\<close> is in range from \<open>-n\<close> to \<open>n - 1\<close>, a
  negative one counting from the end; any other index raises \<open>IndexError\<close>.
\<close>

definition py_index :: "nat \<Rightarrow> int \<Rightarrow> nat option" where
  "py_index n i =
     (if 0 \<le> i \<and> i < int n then Some (nat i)
      else if - int n \<le> i \<and> i < 0 then Some (nat (int n + i))
      else None)"

definition list_getitem :: "'a list \<Rightarrow> int \<Rightarrow> exn + 'a" where
  "list_getitem xs i =
     (case py_index (length xs) i of
        None \<Rightarrow> Inl (IndexError ''list index out of range'')
      | Some k \<Rightarrow> Inr (xs ! k))"

definition list_setitem :: "'a list \<Rightarrow> int \<Rightarrow> 'a \<Rightarrow> exn + 'a list" where
  "list_setitem xs i v =
     (case py_index (length xs) i of
        None \<Rightarrow> Inl (IndexError ''list assignment index out of range'')
      | Some k \<Rightarrow> Inr (xs[k := v]))"

definition list_pop :: "'a list \<Rightarrow> int \<Rightarrow> exn + 'a list" where
  "list_pop xs i =
     (if xs = [] then Inl (IndexError ''pop from empty list'')
      else case py_index (length xs) i of
        None \<Rightarrow> Inl (IndexError ''pop index out of range'')
      | Some k \<Rightarrow> Inr (take k xs @ drop (Suc k) xs))"

text \<open>
  \<open>float(n)\<close> of an integer rounds it to the nearest double and raises
  \<open>OverflowError\<close> when that is beyond the largest one, \<open>2^1024 - 2^971\<close>: from
  \<open>2^1024 - 2^970\<close> on, in magnitude.
\<close>

definition float_overflows :: "int \<Rightarrow> bool" where
  "float_overflows n = (2 ^ 1024 - 2 ^ 970 \<le> \<bar>n\<bar>)"

text \<open>
  \<open>round(x / b)\<close> for the exact quotient of integers \<open>a\<close> and \<open>b > 0\<close>: the nearest
  integer, a tie going to the even neighbour. For \<open>float(a) / 50\<close> the exact quotient
  gives what \<open>_dpi_slide\<close> stores whenever \<open>float(a)\<close> does not overflow: up to
  \<open>2^53\<close> the conversion is exact, a tie \<open>k + 1/2\<close> is a float, any other quotient is
  at least \<open>1/50\<close> away from a tie and the division errs by less; and a quotient
  below 0 or above 521, however rounded, is cut to 50 or to 26000 by the limits.
\<close>

definition py_round_div :: "int \<Rightarrow> int \<Rightarrow> int" where
  "py_round_div a b =
     (let q = a div b; r = a mod b in
      if 2 * r < b then q
      else if b < 2 * r then q + 1
      else if even q then q else q + 1)"

subsection \<open>The application\<close>

text \<open>
  \<open>self.config\<close> is modelled at the shape \<open>DEFAULT_CONFIG\<close> has and the handlers keep: a
  list of integers and three integers. \<open>to_dict\<close> is the dict it stands for. The state of
  the application is the configuration in memory, the file at \<open>CONFIG_PATH\<close>, the device,
  the notification last shown (the text of the toast label and its \<open>ok\<close> flag), the
  exceptions that escaped a Tk callback (Tk reports them and its main loop goes on), the
  contents of the list of \<open>DEFAULT_CONFIG\<close>, and whether the list of \<open>self.config\<close> is
  that same object. Widgets, colours and timers are left out.
\<close>

record configuration =
  dpi_profiles :: "int list"
  active_dpi :: int
  poll_rate :: int
  lod :: int

definition to_dict :: "configuration \<Rightarrow> pydict" where
  "to_dict c =
     [(KStr ''dpi_profiles'', JList (map JInt (dpi_profiles c))),
      (KStr ''active_dpi'', JInt (active_dpi c)),
      (KStr ''poll_rate'', JInt (poll_rate c)),
      (KStr ''lod'', JInt (lod c))]"

record app =
  config :: configuration
  stored :: file_state
  device :: BeastXDevice
  toast :: "(string \<times> bool) option"
  errors :: "exn list"
  default_profiles :: "int list"
  aliased :: bool

definition persist :: "app \<Rightarrow> app" where  \<comment> \<open>\<open>save_config(self.config)\<close>\<close>
  "persist s = s\<lparr>stored := save_config (to_dict (config s)) (stored s)\<rparr>"

text \<open>
  A change of the list \<open>self.config["dpi_profiles"]\<close> in place (\<open>append\<close>, \<open>pop\<close>,
  item assignment) leaves it with the contents \<open>ps\<close>; it is a change of the list of
  \<open>DEFAULT_CONFIG\<close> too when the two are one object.
\<close>

definition set_profiles :: "int list \<Rightarrow> app \<Rightarrow> app" where
  "set_profiles ps s =
     s\<lparr>config := (config s)\<lparr>dpi_profiles := ps\<rparr>,
       default_profiles := (if aliased s then ps else default_profiles s)\<rparr>"

definition app_toast :: "string \<Rightarrow> bool \<Rightarrow> app \<Rightarrow> app" where
  "app_toast msg ok s = s\<lparr>toast := Some (''  '' @ msg @ ''  '', ok)\<rparr>"

text \<open>
  \<open>_send(fn, success_msg)\<close> runs \<open>fn()\<close> on a worker thread and hands the toast to Tk's
  main loop with \<open>self.after(0, lambda: ...)\<close>. The lambda of the failure branch reads the
  variable \<open>e\<close> of \<open>except Exception as e\<close> when the main loop calls it, and Python
  unbinds that variable when the \<open>except\<close> clause ends. So the outcome of a failed
  \<open>fn()\<close> depends on which thread runs first: \<open>CallbackFirst\<close>, the main loop calls the
  lambda while the worker is still inside the clause, and the toast shows \<open>str(e)\<close>;
  \<open>WorkerFirst\<close>, the worker has left the clause, and the lambda raises \<open>NameError\<close>
  inside the Tk callback, with no toast. The success branch reads only \<open>success_msg\<close>,
  which stays bound.
\<close>

datatype schedule = CallbackFirst | WorkerFirst

definition app_send ::
  "(BeastXDevice \<Rightarrow> (exn + unit) \<times> BeastXDevice) \<Rightarrow> string \<Rightarrow> schedule \<Rightarrow> app \<Rightarrow> app" where
  "app_send fn success_msg sch s =
     (case fn (device s) of
        (Inr r, d') \<Rightarrow> app_toast (check_mark @ ''  '' @ success_msg) True (s\<lparr>device := d'\<rparr>)
      | (Inl e, d') \<Rightarrow>
          (case sch of
             CallbackFirst \<Rightarrow> app_toast (ballot_x @ ''  '' @ str_exn e) False (s\<lparr>device := d'\<rparr>)
           | WorkerFirst \<Rightarrow>
               s\<lparr>device := d',
                 errors := errors s @
                   [NameError ''cannot access free variable 'e' where it is not associated with a value in enclosing scope'']\<rparr>))"

text \<open>
  \<open>_dpi_slide(value, label, idx)\<close>; \<open>slide_value\<close> is its first two lines, and
  \<open>round_clamp\<close> what they compute once \<open>float(value)\<close> has returned.
\<close>

definition round_clamp :: "int \<Rightarrow> int" where
  "round_clamp raw = max 50 (min 26000 (py_round_div raw 50 * 50))"

definition slide_value :: "int \<Rightarrow> exn + int" where
  "slide_value raw =
     (if float_overflows raw then Inl (OverflowError ''int too large to convert to float'')
      else Inr (round_clamp raw))"

definition app_dpi_slide :: "int \<Rightarrow> int \<Rightarrow> app \<Rightarrow> app" where
  "app_dpi_slide raw idx s =
     (case slide_value raw of
        Inl e \<Rightarrow> s\<lparr>errors := errors s @ [e]\<rparr>
      | Inr v \<Rightarrow>
          (case list_setitem (dpi_profiles (config s)) idx v of
             Inl e \<Rightarrow> s\<lparr>errors := errors s @ [e]\<rparr>
           | Inr ps \<Rightarrow> persist (set_profiles ps s)))"

text \<open>\<open>_set_active_dpi(idx)\<close>: the index is stored and saved first; the toast reads the
  profile afterwards.\<close>

definition app_set_active_dpi :: "int \<Rightarrow> app \<Rightarrow> app" where
  "app_set_active_dpi idx s =
     (let s1 = persist (s\<lparr>config := (config s)\<lparr>active_dpi := idx\<rparr>\<rparr>) in
      case list_getitem (dpi_profiles (config s1)) idx of
        Inl e \<Rightarrow> s1\<lparr>errors := errors s1 @ [e]\<rparr>
      | Inr dpi \<Rightarrow>
          app_toast (''Profile '' @ str_int (idx + 1) @ '' active '' @ em_dash @ '' ''
                     @ fmt_comma dpi @ '' DPI'') True s1)"

definition app_add_dpi :: "app \<Rightarrow> app" where
  "app_add_dpi s =
     (if 5 \<le> length (dpi_profiles (config s)) then s
      else persist (set_profiles (dpi_profiles (config s) @ [1600]) s))"

definition app_del_dpi :: "int \<Rightarrow> app \<Rightarrow> app" where
  "app_del_dpi idx s =
     (if length (dpi_profiles (config s)) \<le> 1
      then app_toast ''Need at least one profile'' False s
      else case list_pop (dpi_profiles (config s)) idx of
        Inl e \<Rightarrow> s\<lparr>errors := errors s @ [e]\<rparr>
      | Inr ps \<Rightarrow>
          (let s1 = set_profiles ps s;
               c2 = (if int (length ps) \<le> active_dpi (config s1)
                     then (config s1)\<lparr>active_dpi := int (length ps) - 1\<rparr> else config s1)
           in persist (s1\<lparr>config := c2\<rparr>)))"

text \<open>\<open>_set_poll(hz, note)\<close> and \<open>_set_lod(val)\<close>: store, save, then send.\<close>

definition app_set_poll :: "int \<Rightarrow> string \<Rightarrow> schedule \<Rightarrow> app \<Rightarrow> app" where
  "app_set_poll hz note sch s =
     (let s1 = persist (s\<lparr>config := (config s)\<lparr>poll_rate := hz\<rparr>\<rparr>) in
      app_send (set_poll_rate hz)
        (''Polling rate '' @ right_arrow @ '' '' @ str_int hz @ '' Hz'') sch s1)"

definition app_set_lod :: "int \<Rightarrow> schedule \<Rightarrow> app \<Rightarrow> app" where
  "app_set_lod val sch s =
     (let s1 = persist (s\<lparr>config := (config s)\<lparr>lod := val\<rparr>\<rparr>) in
      app_send (set_lod val)
        (''Lift-off '' @ right_arrow @ '' '' @ (if val = 0 then ''1mm'' else ''2mm'')) sch s1)"

subsection \<open>States and predicates of the properties\<close>

text \<open>
  The configuration \<open>DEFAULT_CONFIG\<close> stands for when the module is imported, and the
  application as \<open>BeastXApp.__init__\<close> leaves it when no file exists and no mouse has
  been connected: \<open>self.config\<close> is \<open>dict(DEFAULT_CONFIG)\<close>, whose list of profiles is
  the list of \<open>DEFAULT_CONFIG\<close>.
\<close>

definition default_configuration :: configuration where
  "default_configuration =
     \<lparr>dpi_profiles = DEFAULT_PROFILES, active_dpi = 1, poll_rate = 1000, lod = 0\<rparr>"

definition fresh_app :: app where
  "fresh_app =
     \<lparr>config = default_configuration, stored = Missing, device = \<lparr>dev = None\<rparr>,
      toast = None, errors = [], default_profiles = DEFAULT_PROFILES, aliased = True\<rparr>"

text \<open>A connected mouse whose every write fails: the call returns \<open>-1\<close>.\<close>

definition failing_handle :: hid_handle where
  "failing_handle = \<lparr>reply = (\<lambda>bytes. Returns (- 1)), error_text = ''Broken pipe'', written = []\<rparr>"

text \<open>The invariant of the active index, and the bounds of the profile list.\<close>

definition active_in_range :: "configuration \<Rightarrow> bool" where
  "active_in_range c = (0 \<le> active_dpi c \<and> active_dpi c < int (length (dpi_profiles c)))"

definition profiles_bounded :: "configuration \<Rightarrow> bool" where
  "profiles_bounded c = (1 \<le> length (dpi_profiles c) \<and> length (dpi_profiles c) \<le> 5)"

text \<open>The sensitivity limits, as \<open>_dpi_slide\<close> applies them.\<close>

definition clamp_dpi :: "int \<Rightarrow> int" where
  "clamp_dpi raw = max 50 (min 26000 raw)"

section \<open>Properties\<close>

subsection \<open>Packet catalog\<close>

lemma poll_keys: "dom POLL_PACKETS = {125, 250, 500, 1000, 2000, 4000}"
  by (auto simp: POLL_PACKETS_def POLL_PACKETS_items_def dom_def split: if_splits)

lemma lod_keys: "dom LOD_PACKETS = {0, 1}"
  by (auto simp: LOD_PACKETS_def LOD_PACKETS_items_def dom_def split: if_splits)

text \<open>
  C2. For each of the six polling rates, \<open>pad_packet\<close> turns the stored packet into a
  report of exactly 64 bytes whose byte 0 is \<open>0x04\<close>, that starts with the stored packet
  and is zero from there on.
\<close>

theorem poll_report_padded:
  assumes "hz \<in> {125, 250, 500, 1000, 2000, 4000}"
  shows "\<exists>p r. POLL_PACKETS hz = Some p \<and> pad_packet p = Inr r \<and> length r = 64
           \<and> r ! 0 = 0x04 \<and> take (length p) r = p
           \<and> drop (length p) r = replicate (64 - length p) 0"
  using assms
  by (auto simp: POLL_PACKETS_def POLL_PACKETS_items_def pad_packet_def REPORT_SIZE_def
      is_byte_def)

theorem poll_report_padded_witness:
  "(1000::int) \<in> {125, 250, 500, 1000, 2000, 4000}
   \<and> (\<exists>p r. POLL_PACKETS 1000 = Some p \<and> pad_packet p = Inr r \<and> length r = 64
           \<and> r ! 0 = 0x04 \<and> take (length p) r = p
           \<and> drop (length p) r = replicate (64 - length p) 0)"
  using poll_report_padded [of 1000] by simp

text \<open>
  C4. The packet stored for lift-off key 0 (1 mm) is the packet stored for the polling
  rate 1000, byte for byte; so on any device \<open>set_lod(0)\<close> and \<open>set_poll_rate(1000)\<close>
  have the same result and write the same bytes.
\<close>

theorem lod_0_is_poll_1000:
  "LOD_PACKETS 0 = POLL_PACKETS 1000 \<and> POLL_PACKETS 1000 \<noteq> None
   \<and> set_lod 0 d = set_poll_rate 1000 d"
  by (simp add: LOD_PACKETS_def LOD_PACKETS_items_def POLL_PACKETS_def POLL_PACKETS_items_def
      set_lod_def set_poll_rate_def)

subsection \<open>Sensitivity values\<close>

lemma round_near: "\<bar>py_round_div a 50 * 50 - a\<bar> \<le> 25"
proof -
  define q where "q = a div 50"
  define r where "r = a mod 50"
  have a: "a = 50 * q + r" and r: "0 \<le> r" "r < 50"
    by (simp_all add: q_def r_def)
  have "py_round_div a 50 =
          (if 2 * r < 50 then q else if 50 < 2 * r then q + 1 else if even q then q else q + 1)"
    by (simp add: py_round_div_def Let_def q_def r_def)
  then show ?thesis using a r by (auto split: if_splits)
qed

lemma clamp_contracts:
  fixes x y :: int
  shows "\<bar>max 50 (min 26000 x) - max 50 (min 26000 y)\<bar> \<le> \<bar>x - y\<bar>"
  by linarith

lemma round_clamp_near: "\<bar>round_clamp raw - clamp_dpi raw\<bar> \<le> 25"
  unfolding round_clamp_def clamp_dpi_def
  using round_near [of raw] clamp_contracts [of "py_round_div raw 50 * 50" raw] by linarith

lemma round_clamp_dvd: "50 dvd round_clamp raw"
  by (simp add: round_clamp_def max_def min_def)

lemma round_clamp_range: "50 \<le> round_clamp raw \<and> round_clamp raw \<le> 26000"
  by (simp add: round_clamp_def)

lemma float_fits: "\<bar>n\<bar> \<le> 2 ^ 53 \<Longrightarrow> \<not> float_overflows n"
proof -
  assume a: "\<bar>n\<bar> \<le> 2 ^ 53"
  have "(2::int) ^ 53 < 2 ^ 1024 - 2 ^ 970" by simp
  with a show ?thesis by (simp add: float_overflows_def)
qed

lemma no_nearer_multiple:
  fixes v c m :: int
  assumes "50 dvd v" "\<bar>v - c\<bar> \<le> 25" "50 dvd m"
  shows "\<bar>v - c\<bar> \<le> \<bar>m - c\<bar>"
proof -
  from assms obtain a b where v: "v = 50 * a" and m: "m = 50 * b"
    by (auto elim!: dvdE)
  show ?thesis
  proof (cases "a = b")
    case True
    then show ?thesis by (simp add: v m)
  next
    case False
    then have "a < b \<or> b < a" by auto
    then show ?thesis using assms(2) by (auto simp: v m)
  qed
qed

lemma py_index_valid: "0 \<le> i \<Longrightarrow> i < int n \<Longrightarrow> py_index n i = Some (nat i)"
  by (simp add: py_index_def)

text \<open>
  C6, as the code has it. For an index \<open>0 \<le> idx < len(dpi_profiles)\<close> and every
  integer \<open>raw\<close> that \<open>float\<close> can convert (below \<open>2^1024 - 2^970\<close> in magnitude),
  \<open>_dpi_slide\<close> stores \<open>round_clamp raw\<close> at \<open>idx\<close> and saves the configuration;
  the stored value lies in \<open>[50, 26000]\<close>, is a multiple of 50, and no multiple of 50
  is nearer to \<open>raw\<close> clamped into \<open>[50, 26000]\<close>. 137 gives 150, 40 gives 50 and
  30000 gives 26000.
\<close>

theorem dpi_slide_stores_clamped_rounded:
  assumes "0 \<le> idx" and "idx < int (length (dpi_profiles (config s)))"
    and "\<not> float_overflows raw"
  shows "app_dpi_slide raw idx s =
           persist (set_profiles ((dpi_profiles (config s))[nat idx := round_clamp raw]) s)
         \<and> dpi_profiles (config (app_dpi_slide raw idx s)) =
             (dpi_profiles (config s))[nat idx := round_clamp raw]
         \<and> dpi_profiles (config (app_dpi_slide raw idx s)) ! nat idx = round_clamp raw
         \<and> stored (app_dpi_slide raw idx s) =
             save_config (to_dict ((config s)\<lparr>dpi_profiles :=
               (dpi_profiles (config s))[nat idx := round_clamp raw]\<rparr>)) (stored s)
         \<and> errors (app_dpi_slide raw idx s) = errors s
         \<and> 50 \<le> round_clamp raw \<and> round_clamp raw \<le> 26000 \<and> 50 dvd round_clamp raw
         \<and> (\<forall>m. 50 dvd m \<longrightarrow> \<bar>round_clamp raw - clamp_dpi raw\<bar> \<le> \<bar>m - clamp_dpi raw\<bar>)
         \<and> slide_value 137 = Inr 150 \<and> slide_value 40 = Inr 50
         \<and> slide_value 30000 = Inr 26000"
proof -
  have run: "app_dpi_slide raw idx s =
           persist (set_profiles ((dpi_profiles (config s))[nat idx := round_clamp raw]) s)"
    using assms
    by (simp add: app_dpi_slide_def slide_value_def list_setitem_def py_index_valid)
  have ps: "dpi_profiles (config (app_dpi_slide raw idx s)) =
             (dpi_profiles (config s))[nat idx := round_clamp raw]"
    by (simp add: run persist_def set_profiles_def)
  have at: "dpi_profiles (config (app_dpi_slide raw idx s)) ! nat idx = round_clamp raw"
    using assms by (simp add: ps)
  have st: "stored (app_dpi_slide raw idx s) =
             save_config (to_dict ((config s)\<lparr>dpi_profiles :=
               (dpi_profiles (config s))[nat idx := round_clamp raw]\<rparr>)) (stored s)"
    by (simp add: run persist_def set_profiles_def)
  have er: "errors (app_dpi_slide raw idx s) = errors s"
    by (simp add: run persist_def set_profiles_def)
  have near: "\<forall>m. 50 dvd m \<longrightarrow> \<bar>round_clamp raw - clamp_dpi raw\<bar> \<le> \<bar>m - clamp_dpi raw\<bar>"
    using no_nearer_multiple [OF round_clamp_dvd round_clamp_near] by blast
  have ex: "slide_value 137 = Inr 150 \<and> slide_value 40 = Inr 50
            \<and> slide_value 30000 = Inr 26000"
    by (simp add: slide_value_def float_fits round_clamp_def py_round_div_def)
  from run ps at st er near ex round_clamp_range [of raw] round_clamp_dvd [of raw]
  show ?thesis by blast
qed

theorem dpi_slide_stores_clamped_rounded_witness:
  "(0::int) \<le> 0 \<and> 0 < int (length (dpi_profiles (config fresh_app)))
   \<and> \<not> float_overflows 137
   \<and> dpi_profiles (config (app_dpi_slide 137 0 fresh_app)) = [150, 800, 1600, 3200]
   \<and> stored (app_dpi_slide 137 0 fresh_app) =
       Parsed (JObj [(''dpi_profiles'', JList [JInt 150, JInt 800, JInt 1600, JInt 3200]),
                     (''active_dpi'', JInt 1), (''poll_rate'', JInt 1000), (''lod'', JInt 0)])
   \<and> errors (app_dpi_slide 137 0 fresh_app) = []
   \<and> \<bar>round_clamp 137 - clamp_dpi 137\<bar> \<le> \<bar>100 - clamp_dpi 137\<bar>"
proof -
  have fits: "\<not> float_overflows 137" by (simp add: float_fits)
  have rc: "round_clamp 137 = 150" by (simp add: round_clamp_def py_round_div_def)
  show ?thesis
    using fits dpi_slide_stores_clamped_rounded [of 0 fresh_app 137]
    by (simp add: rc fresh_app_def default_configuration_def DEFAULT_PROFILES_def
        persist_def set_profiles_def save_config_def to_dict_def clamp_dpi_def)
qed

text \<open>
  C6 as stated fails for a \<open>raw\<close> that \<open>float\<close> cannot convert. On the fresh
  application \<open>_dpi_slide(2**1024, label, 0)\<close> raises \<open>OverflowError\<close> in its first
  line: profile 0 keeps its 400, nothing is saved.
\<close>

theorem dpi_slide_overflow_stores_nothing:
  "(0::int) \<le> 0 \<and> 0 < int (length (dpi_profiles (config fresh_app)))
   \<and> slide_value (2 ^ 1024) = Inl (OverflowError ''int too large to convert to float'')
   \<and> dpi_profiles (config (app_dpi_slide (2 ^ 1024) 0 fresh_app)) = [400, 800, 1600, 3200]
   \<and> stored (app_dpi_slide (2 ^ 1024) 0 fresh_app) = Missing
   \<and> errors (app_dpi_slide (2 ^ 1024) 0 fresh_app) =
       [OverflowError ''int too large to convert to float'']"
proof -
  have over: "float_overflows (2 ^ 1024)"
    by (simp add: float_overflows_def)
  then show ?thesis
    by (simp add: app_dpi_slide_def slide_value_def fresh_app_def default_configuration_def
        DEFAULT_PROFILES_def)
qed

subsection \<open>Loading and saving\<close>

text \<open>
  What \<open>load_config\<close> returns while the list of \<open>DEFAULT_CONFIG\<close> is as the module built
  it, which is how the one call in \<open>BeastXApp.__init__\<close> finds it: the default
  configuration when the file is missing or cannot be read or parsed, and the defaults
  with \<open>poll_rate\<close> 500 for a file holding only \<open>{"poll_rate": 500}\<close>. The fresh
  application holds that result.
\<close>

lemma load_defaults_at_import:
  "load_config DEFAULT_PROFILES Missing = DEFAULT_CONFIG DEFAULT_PROFILES
   \<and> load_config DEFAULT_PROFILES Unreadable = DEFAULT_CONFIG DEFAULT_PROFILES
   \<and> DEFAULT_CONFIG DEFAULT_PROFILES =
       [(KStr ''dpi_profiles'', JList [JInt 400, JInt 800, JInt 1600, JInt 3200]),
        (KStr ''active_dpi'', JInt 1),
        (KStr ''poll_rate'', JInt 1000),
        (KStr ''lod'', JInt 0)]
   \<and> load_config DEFAULT_PROFILES (Parsed (JObj [(''poll_rate'', JInt 500)])) =
       [(KStr ''dpi_profiles'', JList [JInt 400, JInt 800, JInt 1600, JInt 3200]),
        (KStr ''active_dpi'', JInt 1),
        (KStr ''poll_rate'', JInt 500),
        (KStr ''lod'', JInt 0)]"
  by (simp add: load_config_def DEFAULT_CONFIG_def DEFAULT_PROFILES_def)

lemma fresh_app_loaded:
  "to_dict (config fresh_app) = load_config DEFAULT_PROFILES (stored fresh_app)
   \<and> default_profiles fresh_app = DEFAULT_PROFILES \<and> aliased fresh_app"
  by (simp add: fresh_app_def default_configuration_def DEFAULT_PROFILES_def to_dict_def load_config_def
      DEFAULT_CONFIG_def)

text \<open>
  C8, at a failing input. The application starts with no file, so its configuration shares
  the list of \<open>DEFAULT_CONFIG\<close>; the user adds a profile, and \<open>append\<close> puts 1600
  into that list. A \<open>load_config()\<close> from then on returns five profiles as the
  defaults: with the file missing, with the file unreadable, and under \<open>poll_rate\<close> 500
  for a file holding only \<open>{"poll_rate": 500}\<close>.
\<close>

theorem load_returns_changed_defaults:
  "default_profiles fresh_app = [400, 800, 1600, 3200]
   \<and> default_profiles (app_add_dpi fresh_app) = [400, 800, 1600, 3200, 1600]
   \<and> load_config (default_profiles (app_add_dpi fresh_app)) Missing =
       [(KStr ''dpi_profiles'', JList [JInt 400, JInt 800, JInt 1600, JInt 3200, JInt 1600]),
        (KStr ''active_dpi'', JInt 1),
        (KStr ''poll_rate'', JInt 1000),
        (KStr ''lod'', JInt 0)]
   \<and> load_config (default_profiles (app_add_dpi fresh_app)) Unreadable =
       [(KStr ''dpi_profiles'', JList [JInt 400, JInt 800, JInt 1600, JInt 3200, JInt 1600]),
        (KStr ''active_dpi'', JInt 1),
        (KStr ''poll_rate'', JInt 1000),
        (KStr ''lod'', JInt 0)]
   \<and> load_config (default_profiles (app_add_dpi fresh_app))
         (Parsed (JObj [(''poll_rate'', JInt 500)])) =
       [(KStr ''dpi_profiles'', JList [JInt 400, JInt 800, JInt 1600, JInt 3200, JInt 1600]),
        (KStr ''active_dpi'', JInt 1),
        (KStr ''poll_rate'', JInt 500),
        (KStr ''lod'', JInt 0)]"
  by (simp add: app_add_dpi_def set_profiles_def persist_def set_profiles_def fresh_app_def
      default_configuration_def DEFAULT_PROFILES_def load_config_def DEFAULT_CONFIG_def)

text \<open>
  C10. Round trip: saving a configuration of the four fields and loading the file again
  gives that configuration back, whatever the file held before and whatever the list of
  \<open>DEFAULT_CONFIG\<close> holds; so a load after any handler's save returns the configuration
  in memory.
\<close>

theorem save_load_round_trip:
  "load_config ps (save_config (to_dict c) fs) = to_dict c
   \<and> load_config (default_profiles s) (stored (persist s)) = to_dict (config s)"
  by (simp add: load_config_def save_config_def to_dict_def DEFAULT_CONFIG_def persist_def)

lemma dict_get_setitem:
  "dict_get (dict_setitem d k v) q = (if key_norm k = key_norm q then Some v else dict_get d q)"
  by (induction d) auto

lemma dict_get_update_members:
  "dict_get (update_members d kvs) (KStr k) =
     (case map_of (rev kvs) k of Some v \<Rightarrow> Some v | None \<Rightarrow> dict_get d (KStr k))"
proof (induction kvs arbitrary: d)
  case Nil
  then show ?case by simp
next
  case (Cons kv kvs)
  obtain k0 v0 where kv: "kv = (k0, v0)" by (cases kv)
  show ?case
    by (simp add: kv Cons.IH dict_get_setitem map_add_def split: option.splits)
qed

text \<open>
  C9, as the code has it. For a file that parses to an object, \<open>load_config\<close> returns the
  defaults, as they then are, updated with every member of the file: looking a key up in the result gives the
  file's value when the file has the key (the last one, should the text repeat it), whether
  the key is a field of the configuration or not, and the default otherwise. Keys that are
  no fields are kept, not dropped.
\<close>

theorem load_merges_every_key:
  "load_config ps (Parsed (JObj kvs)) = update_members (DEFAULT_CONFIG ps) kvs
   \<and> dict_get (load_config ps (Parsed (JObj kvs))) (KStr k) =
       (case map_of (rev kvs) k of
          Some v \<Rightarrow> Some v
        | None \<Rightarrow> dict_get (DEFAULT_CONFIG ps) (KStr k))"
  by (simp add: load_config_def dict_get_update_members)

text \<open>
  C9 as stated fails: loading \<open>{"poll_rate": 500, "theme": "dark"}\<close> returns five
  entries, the key \<open>theme\<close> among them.
\<close>

theorem load_keeps_unknown_key:
  "load_config DEFAULT_PROFILES
     (Parsed (JObj [(''poll_rate'', JInt 500), (''theme'', JStr ''dark'')])) =
     [(KStr ''dpi_profiles'', JList [JInt 400, JInt 800, JInt 1600, JInt 3200]),
      (KStr ''active_dpi'', JInt 1),
      (KStr ''poll_rate'', JInt 500),
      (KStr ''lod'', JInt 0),
      (KStr ''theme'', JStr ''dark'')]"
  by (simp add: load_config_def DEFAULT_CONFIG_def DEFAULT_PROFILES_def)

subsection \<open>Store, then send\<close>

lemma app_send_keeps_config:
  "config (app_send fn msg sch s) = config s \<and> stored (app_send fn msg sch s) = stored s"
  by (simp add: app_send_def app_toast_def split: prod.splits sum.splits schedule.splits)

lemma set_poll_commits:
  "config (app_set_poll hz nt sch s) = (config s)\<lparr>poll_rate := hz\<rparr>
   \<and> stored (app_set_poll hz nt sch s) =
       save_config (to_dict ((config s)\<lparr>poll_rate := hz\<rparr>)) (stored s)"
  by (simp add: app_set_poll_def Let_def app_send_keeps_config persist_def)

lemma set_lod_commits:
  "config (app_set_lod val sch s) = (config s)\<lparr>lod := val\<rparr>
   \<and> stored (app_set_lod val sch s) =
       save_config (to_dict ((config s)\<lparr>lod := val\<rparr>)) (stored s)"
  by (simp add: app_set_lod_def Let_def app_send_keeps_config persist_def)

text \<open>A write that returns a negative result raises with the text of \<open>error()\<close>.\<close>

lemma write_failure_text:
  assumes "dev d = Some h" and "pad_packet packet = Inr buf"
    and "reply h (0 # buf) = Returns n" and "n < 0"
  shows "fst (send packet d) = Inl (RuntimeError (''Write failed: '' @ error_text h))"
  using assms by (simp add: send_def Let_def)

text \<open>
  When the function handed to \<open>_send\<close> raises \<open>e\<close>: if the main loop calls the deferred
  lambda before the worker leaves the \<open>except\<close> clause, the toast shows \<open>str(e)\<close>; if the
  worker leaves first, no toast is shown and the lambda raises \<open>NameError\<close>.
\<close>

lemma send_failure_callback_first:
  assumes "fn (device s) = (Inl e, d')"
  shows "toast (app_send fn msg CallbackFirst s) =
           Some (''  '' @ ballot_x @ ''  '' @ str_exn e @ ''  '', False)
         \<and> errors (app_send fn msg CallbackFirst s) = errors s"
  using assms by (simp add: app_send_def app_toast_def)

lemma send_failure_worker_first:
  assumes "fn (device s) = (Inl e, d')"
  shows "toast (app_send fn msg WorkerFirst s) = toast s
         \<and> (\<exists>m. errors (app_send fn msg WorkerFirst s) = errors s @ [NameError m])"
  using assms by (simp add: app_send_def app_toast_def)

text \<open>
  A polling rate of the catalog on a connected mouse whose write returns a negative result:
  the configuration is stored and saved all the same, and the failure toast, when the
  deferred lambda still finds \<open>e\<close> bound, carries the text of the write error.
\<close>

lemma poll_rate_write_fails:
  assumes "hz \<in> {125, 250, 500, 1000, 2000, 4000}"
    and "dev d = Some h" and "reply h = (\<lambda>bytes. Returns n)" and "n < 0"
  shows "\<exists>d'. set_poll_rate hz d = (Inl (RuntimeError (''Write failed: '' @ error_text h)), d')"
  using assms
  by (auto simp: set_poll_rate_def discard_def send_def pad_packet_def POLL_PACKETS_def
      POLL_PACKETS_items_def REPORT_SIZE_def is_byte_def Let_def)

lemma set_poll_write_failure:
  assumes "hz \<in> {125, 250, 500, 1000, 2000, 4000}"
    and "dev (device s) = Some h" and "reply h = (\<lambda>bytes. Returns n)" and "n < 0"
  shows "toast (app_set_poll hz nt CallbackFirst s) =
           Some (''  '' @ ballot_x @ ''  Write failed: '' @ error_text h @ ''  '', False)
       \<and> toast (app_set_poll hz nt WorkerFirst s) = toast s
       \<and> config (app_set_poll hz nt sch s) = (config s)\<lparr>poll_rate := hz\<rparr>
       \<and> stored (app_set_poll hz nt sch s) =
           save_config (to_dict ((config s)\<lparr>poll_rate := hz\<rparr>)) (stored s)"
proof -
  let ?s1 = "persist (s\<lparr>config := (config s)\<lparr>poll_rate := hz\<rparr>\<rparr>)"
  have "dev (device ?s1) = Some h" using assms(2) by (simp add: persist_def)
  from poll_rate_write_fails [OF assms(1) this assms(3,4)]
  obtain d' where f: "set_poll_rate hz (device ?s1) =
      (Inl (RuntimeError (''Write failed: '' @ error_text h)), d')" by blast
  have a: "toast (app_set_poll hz nt CallbackFirst s) =
           Some (''  '' @ ballot_x @ ''  Write failed: '' @ error_text h @ ''  '', False)"
    using send_failure_callback_first [of "set_poll_rate hz" ?s1, OF f]
    by (simp add: app_set_poll_def Let_def)
  have b: "toast (app_set_poll hz nt WorkerFirst s) = toast s"
    using send_failure_worker_first [of "set_poll_rate hz" ?s1, OF f]
    by (simp add: app_set_poll_def Let_def persist_def)
  from a b set_poll_commits [of hz nt sch s] show ?thesis by simp
qed

text \<open>
  C1, at a failing input. The mouse is connected and its write returns \<open>-1\<close>, the library
  reporting \<open>Broken pipe\<close>; the user picks 500 Hz; the worker thread leaves the
  \<open>except\<close> clause before the main loop calls the deferred lambda. The send raises
  \<open>RuntimeError("Write failed: Broken pipe")\<close>; the configuration in memory and in the
  file keeps the polling rate 500 stored before the send; but no notification is shown: the
  toast stays empty and the lambda raises \<open>NameError\<close>.
\<close>

theorem send_failure_notification_lost:
  "fst (set_poll_rate 500 \<lparr>dev = Some failing_handle\<rparr>) =
       Inl (RuntimeError ''Write failed: Broken pipe'')
   \<and> config (app_set_poll 500 ''Gaming'' WorkerFirst
               (fresh_app\<lparr>device := \<lparr>dev = Some failing_handle\<rparr>\<rparr>))
       = default_configuration\<lparr>poll_rate := 500\<rparr>
   \<and> stored (app_set_poll 500 ''Gaming'' WorkerFirst
               (fresh_app\<lparr>device := \<lparr>dev = Some failing_handle\<rparr>\<rparr>))
       = Parsed (JObj [(''dpi_profiles'', JList [JInt 400, JInt 800, JInt 1600, JInt 3200]),
                       (''active_dpi'', JInt 1), (''poll_rate'', JInt 500), (''lod'', JInt 0)])
   \<and> toast (app_set_poll 500 ''Gaming'' WorkerFirst
               (fresh_app\<lparr>device := \<lparr>dev = Some failing_handle\<rparr>\<rparr>)) = None
   \<and> errors (app_set_poll 500 ''Gaming'' WorkerFirst
               (fresh_app\<lparr>device := \<lparr>dev = Some failing_handle\<rparr>\<rparr>))
       = [NameError ''cannot access free variable 'e' where it is not associated with a value in enclosing scope'']"
  by (simp add: app_set_poll_def app_send_def set_poll_rate_def discard_def send_def pad_packet_def
      POLL_PACKETS_def POLL_PACKETS_items_def REPORT_SIZE_def is_byte_def failing_handle_def
      fresh_app_def default_configuration_def DEFAULT_PROFILES_def persist_def save_config_def to_dict_def Let_def)

text \<open>
  C3, as the code has it. For a key \<open>hz\<close> outside the six polling rates, the device's
  \<open>set_poll_rate\<close> raises \<open>ValueError\<close> before any write and leaves the device as it
  was; the handler \<open>_set_poll\<close> has by then stored \<open>hz\<close> in the configuration in memory
  and saved it to the file, and neither is undone.
\<close>

theorem invalid_poll_rate_rejected_after_commit:
  assumes "hz \<notin> {125, 250, 500, 1000, 2000, 4000}"
  shows "set_poll_rate hz d = (Inl (ValueError (''Invalid polling rate: '' @ str_int hz)), d)
       \<and> device (app_set_poll hz nt sch s) = device s
       \<and> config (app_set_poll hz nt sch s) = (config s)\<lparr>poll_rate := hz\<rparr>
       \<and> stored (app_set_poll hz nt sch s) =
           save_config (to_dict ((config s)\<lparr>poll_rate := hz\<rparr>)) (stored s)"
proof -
  have "POLL_PACKETS hz = None"
    using assms poll_keys by (auto simp: dom_def)
  then have rejected:
    "set_poll_rate hz d = (Inl (ValueError (''Invalid polling rate: '' @ str_int hz)), d)" for d
    by (simp add: set_poll_rate_def)
  have "device (app_set_poll hz nt sch s) = device s"
    by (simp add: app_set_poll_def Let_def app_send_def rejected app_toast_def persist_def
        split: schedule.splits)
  with rejected set_poll_commits [of hz nt sch s] show ?thesis by simp
qed

theorem invalid_poll_rate_rejected_after_commit_witness:
  "(999::int) \<notin> {125, 250, 500, 1000, 2000, 4000}
   \<and> set_poll_rate 999 \<lparr>dev = Some failing_handle\<rparr> =
       (Inl (ValueError ''Invalid polling rate: 999''), \<lparr>dev = Some failing_handle\<rparr>)
   \<and> device (app_set_poll 999 ''Gaming'' WorkerFirst fresh_app) = \<lparr>dev = None\<rparr>
   \<and> poll_rate (config (app_set_poll 999 ''Gaming'' WorkerFirst fresh_app)) = 999"
  using invalid_poll_rate_rejected_after_commit
          [of 999 "\<lparr>dev = Some failing_handle\<rparr>" "''Gaming''" WorkerFirst fresh_app]
  by (simp add: str_int_def str_nat.simps digit_char_def fresh_app_def)

text \<open>
  C3 as stated fails: \<open>_set_poll(999, ...)\<close> on the fresh application changes the polling
  rate in memory from 1000 to 999 and writes it to the file, which did not exist.
\<close>

theorem invalid_poll_rate_changes_config:
  "(999::int) \<notin> {125, 250, 500, 1000, 2000, 4000}
   \<and> config fresh_app = default_configuration \<and> stored fresh_app = Missing
   \<and> config (app_set_poll 999 ''Gaming'' CallbackFirst fresh_app) =
       default_configuration\<lparr>poll_rate := 999\<rparr>
   \<and> config (app_set_poll 999 ''Gaming'' CallbackFirst fresh_app) \<noteq> config fresh_app
   \<and> stored (app_set_poll 999 ''Gaming'' CallbackFirst fresh_app) =
       Parsed (JObj [(''dpi_profiles'', JList [JInt 400, JInt 800, JInt 1600, JInt 3200]),
                     (''active_dpi'', JInt 1), (''poll_rate'', JInt 999), (''lod'', JInt 0)])"
  by (simp add: set_poll_commits fresh_app_def default_configuration_def DEFAULT_PROFILES_def save_config_def
      to_dict_def)

subsection \<open>Profiles and the active index\<close>

lemma fmt_comma_examples:
  "fmt_comma 800 = ''800'' \<and> fmt_comma 3200 = ''3,200'' \<and> fmt_comma 26000 = ''26,000''"
  by (simp add: fmt_comma_def str_nat.simps digit_char_def)

lemma py_index_Some: "py_index n i = Some k \<Longrightarrow> k < n"
  by (auto simp: py_index_def split: if_splits)

lemma set_active_valid:
  assumes "0 \<le> idx" and "idx < int (length (dpi_profiles (config s)))"
  shows "config (app_set_active_dpi idx s) = (config s)\<lparr>active_dpi := idx\<rparr>
     \<and> stored (app_set_active_dpi idx s) =
         save_config (to_dict ((config s)\<lparr>active_dpi := idx\<rparr>)) (stored s)
     \<and> errors (app_set_active_dpi idx s) = errors s"
  using assms
  by (simp add: app_set_active_dpi_def Let_def persist_def list_getitem_def py_index_valid
      app_toast_def)

lemma config_set_active: "config (app_set_active_dpi idx s) = (config s)\<lparr>active_dpi := idx\<rparr>"
  by (simp add: app_set_active_dpi_def Let_def persist_def app_toast_def split: sum.splits)

lemma profiles_dpi_slide:
  "length (dpi_profiles (config (app_dpi_slide raw i s))) = length (dpi_profiles (config s))
   \<and> active_dpi (config (app_dpi_slide raw i s)) = active_dpi (config s)"
  by (auto simp: app_dpi_slide_def persist_def set_profiles_def list_setitem_def
      split: sum.splits option.splits)

lemma profiles_add_dpi:
  "length (dpi_profiles (config (app_add_dpi s))) =
     (if 5 \<le> length (dpi_profiles (config s)) then length (dpi_profiles (config s))
      else Suc (length (dpi_profiles (config s))))
   \<and> active_dpi (config (app_add_dpi s)) = active_dpi (config s)"
  by (simp add: app_add_dpi_def set_profiles_def persist_def)

text \<open>
  \<open>_del_dpi\<close> either leaves the configuration as it was (one profile left, or an index
  out of range), or removes one of at least two profiles and moves an active index that
  pointed past the new end to the new last profile.
\<close>

lemma del_dpi_cases:
  "(config (app_del_dpi i s) = config s) \<or>
   (2 \<le> length (dpi_profiles (config s))
    \<and> Suc (length (dpi_profiles (config (app_del_dpi i s)))) = length (dpi_profiles (config s))
    \<and> active_dpi (config (app_del_dpi i s)) =
        (if int (length (dpi_profiles (config s))) - 1 \<le> active_dpi (config s)
         then int (length (dpi_profiles (config s))) - 2 else active_dpi (config s)))"
proof (cases "length (dpi_profiles (config s)) \<le> 1")
  case True
  then show ?thesis by (simp add: app_del_dpi_def app_toast_def)
next
  case False
  show ?thesis
  proof (cases "py_index (length (dpi_profiles (config s))) i")
    case None
    with False show ?thesis by (auto simp: app_del_dpi_def list_pop_def set_profiles_def)
  next
    case (Some k)
    then have "k < length (dpi_profiles (config s))" by (rule py_index_Some)
    with False Some show ?thesis
      by (auto simp: app_del_dpi_def list_pop_def set_profiles_def Let_def persist_def)
  qed
qed

text \<open>
  C5, as the code has it. \<open>_set_active_dpi\<close> has no range check. Called with an index
  \<open>0 \<le> idx < len(dpi_profiles)\<close> it stores \<open>idx\<close> as the active index, saves the
  configuration and raises nothing, and the active index is in range afterwards. The other
  handlers (\<open>_dpi_slide\<close>, \<open>_add_dpi\<close>, \<open>_del_dpi\<close>, \<open>_set_poll\<close>, \<open>_set_lod\<close>), with
  any arguments, leave an active index in range when they find it in range.
\<close>

theorem active_index_in_range_kept:
  "(0 \<le> idx \<and> idx < int (length (dpi_profiles (config s))) \<longrightarrow>
       config (app_set_active_dpi idx s) = (config s)\<lparr>active_dpi := idx\<rparr>
     \<and> stored (app_set_active_dpi idx s) =
         save_config (to_dict ((config s)\<lparr>active_dpi := idx\<rparr>)) (stored s)
     \<and> errors (app_set_active_dpi idx s) = errors s
     \<and> active_in_range (config (app_set_active_dpi idx s)))
   \<and> (active_in_range (config s) \<longrightarrow>
        active_in_range (config (app_dpi_slide raw i s))
      \<and> active_in_range (config (app_add_dpi s))
      \<and> active_in_range (config (app_del_dpi i s))
      \<and> active_in_range (config (app_set_poll hz nt sch s))
      \<and> active_in_range (config (app_set_lod val sch s)))"
proof -
  have a: "active_in_range (config (app_del_dpi i s))" if "active_in_range (config s)"
    using that del_dpi_cases [of i s] unfolding active_in_range_def by (auto split: if_splits)
  have b: "active_in_range (config (app_add_dpi s))" if "active_in_range (config s)"
    using that profiles_add_dpi [of s] unfolding active_in_range_def by (auto split: if_splits)
  have c: "active_in_range (config (app_dpi_slide raw i s))" if "active_in_range (config s)"
    using that profiles_dpi_slide [of raw i s] unfolding active_in_range_def by simp
  show ?thesis
    using a b c set_active_valid [of idx s] set_poll_commits [of hz nt sch s]
      set_lod_commits [of val sch s]
    by (simp add: active_in_range_def)
qed

theorem active_index_in_range_kept_witness:
  "(0::int) \<le> 2 \<and> 2 < int (length (dpi_profiles (config fresh_app)))
   \<and> active_in_range (config fresh_app)
   \<and> active_dpi (config (app_set_active_dpi 2 fresh_app)) = 2
   \<and> errors (app_set_active_dpi 2 fresh_app) = []
   \<and> active_in_range (config (app_set_active_dpi 2 fresh_app))
   \<and> active_in_range (config (app_dpi_slide 137 0 fresh_app))
   \<and> active_in_range (config (app_add_dpi fresh_app))
   \<and> active_in_range (config (app_del_dpi 0 fresh_app))
   \<and> active_in_range (config (app_set_poll 500 ''Gaming'' WorkerFirst fresh_app))
   \<and> active_in_range (config (app_set_lod 1 WorkerFirst fresh_app))"
  using active_index_in_range_kept [of 2 fresh_app 137 0 500 "''Gaming''" WorkerFirst 1]
  by (simp add: fresh_app_def default_configuration_def DEFAULT_PROFILES_def active_in_range_def)

text \<open>
  C5 as stated fails. On the fresh application (four profiles, active index 1),
  \<open>_set_active_dpi(7)\<close> stores and saves the active index 7 before the toast's read of
  profile 7 raises \<open>IndexError\<close>; \<open>_set_active_dpi(-1)\<close> raises nothing and leaves the
  active index \<open>-1\<close>. The active index is out of range after either.
\<close>

theorem set_active_dpi_out_of_range_stored:
  "active_in_range (config fresh_app)
   \<and> active_dpi (config (app_set_active_dpi 7 fresh_app)) = 7
   \<and> length (dpi_profiles (config (app_set_active_dpi 7 fresh_app))) = 4
   \<and> \<not> active_in_range (config (app_set_active_dpi 7 fresh_app))
   \<and> stored (app_set_active_dpi 7 fresh_app) =
       Parsed (JObj [(''dpi_profiles'', JList [JInt 400, JInt 800, JInt 1600, JInt 3200]),
                     (''active_dpi'', JInt 7), (''poll_rate'', JInt 1000), (''lod'', JInt 0)])
   \<and> errors (app_set_active_dpi 7 fresh_app) = [IndexError ''list index out of range'']
   \<and> errors (app_set_active_dpi (- 1) fresh_app) = []
   \<and> \<not> active_in_range (config (app_set_active_dpi (- 1) fresh_app))"
  by (simp add: app_set_active_dpi_def Let_def persist_def list_getitem_def py_index_def
      app_toast_def fresh_app_def default_configuration_def DEFAULT_PROFILES_def save_config_def to_dict_def
      active_in_range_def)

text \<open>
  C7, as the code has it. With five (or more) profiles \<open>_add_dpi\<close> returns at once: the
  state is unchanged, nothing is raised and no notification is shown. With one profile
  \<open>_del_dpi\<close> shows the failure notification \<open>Need at least one profile\<close> and changes
  neither the configuration nor the file. Every handler keeps the number of profiles
  between 1 and 5.
\<close>

theorem profile_count_limits:
  "(5 \<le> length (dpi_profiles (config s)) \<longrightarrow> app_add_dpi s = s)
   \<and> (length (dpi_profiles (config s)) \<le> 1 \<longrightarrow>
         app_del_dpi i s = app_toast ''Need at least one profile'' False s
       \<and> config (app_del_dpi i s) = config s \<and> stored (app_del_dpi i s) = stored s)
   \<and> (profiles_bounded (config s) \<longrightarrow>
         profiles_bounded (config (app_add_dpi s))
       \<and> profiles_bounded (config (app_del_dpi i s))
       \<and> profiles_bounded (config (app_dpi_slide raw i s))
       \<and> profiles_bounded (config (app_set_active_dpi i s))
       \<and> profiles_bounded (config (app_set_poll hz nt sch s))
       \<and> profiles_bounded (config (app_set_lod val sch s)))"
proof -
  have a: "profiles_bounded (config (app_del_dpi i s))" if "profiles_bounded (config s)"
    using that del_dpi_cases [of i s] unfolding profiles_bounded_def by auto
  have b: "profiles_bounded (config (app_add_dpi s))" if "profiles_bounded (config s)"
    using that profiles_add_dpi [of s] unfolding profiles_bounded_def by (auto split: if_splits)
  have c: "profiles_bounded (config (app_dpi_slide raw i s))" if "profiles_bounded (config s)"
    using that profiles_dpi_slide [of raw i s] unfolding profiles_bounded_def by simp
  have d: "length (dpi_profiles (config s)) \<le> 1 \<Longrightarrow>
         app_del_dpi i s = app_toast ''Need at least one profile'' False s
       \<and> config (app_del_dpi i s) = config s \<and> stored (app_del_dpi i s) = stored s"
    by (simp add: app_del_dpi_def app_toast_def)
  have e: "5 \<le> length (dpi_profiles (config s)) \<Longrightarrow> app_add_dpi s = s"
    by (simp add: app_add_dpi_def set_profiles_def)
  have f: "profiles_bounded (config (app_set_active_dpi i s))" if "profiles_bounded (config s)"
    using that by (simp add: config_set_active profiles_bounded_def)
  have g: "profiles_bounded (config (app_set_poll hz nt sch s))" if "profiles_bounded (config s)"
    using that by (simp add: set_poll_commits profiles_bounded_def)
  have h: "profiles_bounded (config (app_set_lod val sch s))" if "profiles_bounded (config s)"
    using that by (simp add: set_lod_commits profiles_bounded_def)
  from a b c d e f g h show ?thesis by blast
qed

theorem profile_count_limits_witness:
  "5 \<le> length (dpi_profiles (config (app_add_dpi fresh_app)))
   \<and> app_add_dpi (app_add_dpi fresh_app) = app_add_dpi fresh_app
   \<and> length (dpi_profiles (config (fresh_app\<lparr>config := default_configuration
        \<lparr>dpi_profiles := [800], active_dpi := 0\<rparr>\<rparr>))) \<le> 1
   \<and> toast (app_del_dpi 0 (fresh_app\<lparr>config := default_configuration
        \<lparr>dpi_profiles := [800], active_dpi := 0\<rparr>\<rparr>)) =
       Some (''  Need at least one profile  '', False)
   \<and> dpi_profiles (config (app_del_dpi 0 (fresh_app\<lparr>config := default_configuration
        \<lparr>dpi_profiles := [800], active_dpi := 0\<rparr>\<rparr>))) = [800]
   \<and> profiles_bounded (config fresh_app)
   \<and> profiles_bounded (config (app_add_dpi fresh_app))
   \<and> profiles_bounded (config (app_del_dpi 0 fresh_app))"
  using profile_count_limits [of "app_add_dpi fresh_app"]
    profile_count_limits [of "fresh_app\<lparr>config := default_configuration
        \<lparr>dpi_profiles := [800], active_dpi := 0\<rparr>\<rparr>" 0]
    profile_count_limits [of fresh_app 0]
  by (simp add: fresh_app_def default_configuration_def DEFAULT_PROFILES_def profiles_bounded_def app_add_dpi_def set_profiles_def
      persist_def app_toast_def)

text \<open>
  C7 as stated fails in its first part. After a fifth profile has been added to the fresh
  application, adding a sixth changes nothing at all: the state is the same, no exception
  is raised and no notification is shown, so nothing reports a failure.
\<close>

theorem add_sixth_profile_silent:
  "length (dpi_profiles (config (app_add_dpi fresh_app))) = 5
   \<and> app_add_dpi (app_add_dpi fresh_app) = app_add_dpi fresh_app
   \<and> toast (app_add_dpi (app_add_dpi fresh_app)) = None
   \<and> errors (app_add_dpi (app_add_dpi fresh_app)) = []"
  by (simp add: app_add_dpi_def set_profiles_def persist_def fresh_app_def default_configuration_def DEFAULT_PROFILES_def)

end
